theory Spec2Isabelle
  imports Complex_Main
begin

section \<open>The Trainer of omnivault/transformer/core/trainer.py\<close>

text \<open>
  The development embeds the class \<open>Trainer\<close>: its callback registry
  (\<open>add_callback\<close>, \<open>set_callback\<close>, \<open>remove_callback\<close>, \<open>trigger_callbacks\<close>), the batch
  steps (\<open>_train_one_batch\<close>, \<open>_valid_one_batch\<close>), the epoch drivers (\<open>train_one_epoch\<close>,
  \<open>valid_one_epoch\<close>) and \<open>fit\<close>.

  Conventions of the embedding.
  \<^item> A Python callable is known by its identity, a natural number; what it does when it is
    called, and what \<open>inspect.signature\<close> reports for it, are given by the collaborators
    (record \<open>collab\<close>). Two callables are equal exactly when they are the same object, which
    is how \<open>list.remove\<close> compares functions.
  \<^item> The model, criterion, optimizer, scheduler, logger and the \<open>State\<close> object that owns them
    are external: they are one opaque value (field \<open>state\<close>) which the external capabilities
    and the callbacks transform. External capabilities are total: a failure of the model, the
    optimizer or the scheduler is outside this development. A callback may raise.
  \<^item> A callback reads the whole trainer and changes the external value only; a callback
    that rebinds the trainer's counters or edits the registry while it is being dispatched
    is outside this development.
  \<^item> A \<open>DataLoader\<close> is the finite list of the batches it yields, the same list at every
    iteration. Its length is the number of batches, and its truth value is that of its
    length, since the class has \<open>__len__\<close> and no \<open>__bool__\<close>.
  \<^item> Python floats are idealised as real numbers; division of a float by the integer zero
    raises \<open>ZeroDivisionError\<close>, which is written out.
  \<^item> Every operation returns its result, the trainer as it leaves it (Python does not roll
    back on an exception) and the list of observations it made: the calls that leave the
    trainer, in the order they happen. Observations are a device of the proof; no operation
    reads them.
\<close>

subsection \<open>Values, errors, events\<close>

datatype pyval = PStr string | PInt int | PNone

datatype error = ValueError | ZeroDivisionError | Raised string

datatype TrainerEvent =
    ON_TRAIN_EPOCH_START | ON_TRAIN_EPOCH_END
  | ON_VALID_EPOCH_START | ON_VALID_EPOCH_END
  | ON_TRAIN_BATCH_START | ON_TRAIN_BATCH_END
  | ON_VALID_BATCH_START | ON_VALID_BATCH_END
  | ON_FIT_START | ON_FIT_END

fun event_value :: "TrainerEvent \<Rightarrow> string" where
  "event_value ON_TRAIN_EPOCH_START = ''on_train_epoch_start''"
| "event_value ON_TRAIN_EPOCH_END = ''on_train_epoch_end''"
| "event_value ON_VALID_EPOCH_START = ''on_valid_epoch_start''"
| "event_value ON_VALID_EPOCH_END = ''on_valid_epoch_end''"
| "event_value ON_TRAIN_BATCH_START = ''on_train_batch_start''"
| "event_value ON_TRAIN_BATCH_END = ''on_train_batch_end''"
| "event_value ON_VALID_BATCH_START = ''on_valid_batch_start''"
| "event_value ON_VALID_BATCH_END = ''on_valid_batch_end''"
| "event_value ON_FIT_START = ''on_fit_start''"
| "event_value ON_FIT_END = ''on_fit_end''"

datatype TrainerPhase = TRAIN | VALID | TEST

fun phase_value :: "TrainerPhase \<Rightarrow> string" where
  "phase_value TRAIN = ''train''"
| "phase_value VALID = ''valid''"
| "phase_value TEST = ''test''"

text \<open>
  What can be observed of a run: a dispatch (the event, and the epoch and batch counters at
  that moment), the call of a callback (its identity, the positional and keyword arguments
  after the trainer, and whether it raised), and the calls of the external capabilities.
\<close>

datatype obs =
    Dispatch string int int
  | Invoke nat "pyval list" "(string \<times> pyval) list" "error option"
  | ModelTrain
  | ModelEval
  | LossItem nat real
  | OptimizerStep
  | SchedulerStep
  | LoggerInfo int nat

subsection \<open>The trainer and its collaborators\<close>

record ('s, 'b) trainer =
  state :: 's
  scheduler :: bool
  max_epochs :: int
  log_every_n_steps :: int
  step_scheduler_on_batch_or_epoch :: string
  clip_grad_norm :: bool
  metrics_dict :: "string \<rightharpoonup> real"
  epoch_index :: int
  batch_index :: int
  callbacks :: "string \<rightharpoonup> nat list"
  train_dataloader :: "'b list option"
  valid_dataloader :: "'b list option"
  test_dataloader :: "'b list option"
  train_loss :: "real option"
  valid_loss :: "real option"
  test_loss :: "real option"

text \<open>
  \<open>scheduler\<close> and \<open>clip_grad_norm\<close> hold the truth value of the attribute, the only thing
  the trainer asks of them. The three losses and the three loaders are the attributes
  \<open>fit\<close> creates; \<open>None\<close> is an attribute not yet set.
\<close>

record ('s, 'b) collab =
  signature_parameters :: "nat \<Rightarrow> string list"
  call :: "nat \<Rightarrow> pyval list \<Rightarrow> (string \<times> pyval) list \<Rightarrow> ('s, 'b) trainer \<Rightarrow> error option \<times> 's"
  size0 :: "'b \<Rightarrow> nat"
  forward_backward :: "'b \<Rightarrow> 's \<Rightarrow> real \<times> 's"
  forward_only :: "'b \<Rightarrow> 's \<Rightarrow> real \<times> 's"
  optimizer_step :: "bool \<Rightarrow> 's \<Rightarrow> 's"
  scheduler_step :: "'s \<Rightarrow> 's"
  model_train :: "'s \<Rightarrow> 's"
  model_eval :: "'s \<Rightarrow> 's"
  logger_info :: "int \<Rightarrow> nat \<Rightarrow> real \<Rightarrow> real \<Rightarrow> 's \<Rightarrow> 's"
  model_to :: "'s \<Rightarrow> 's"
  state_scheduler :: "'s \<Rightarrow> bool"

text \<open>
  \<open>signature_parameters h\<close> are the keys of \<open>inspect.signature(h).parameters\<close>.
  \<open>call h args kwargs t\<close> is \<open>h(t, *args, **kwargs)\<close>: the exception it raises, if any, and
  the external value afterwards.
  \<open>size0 batch\<close> is \<open>batch[0].size(0)\<close>, which \<open>move_to_device\<close> does not change.
  \<open>forward_backward\<close> is lines 176 to 186 of \<open>_train_one_batch\<close>: the batch moved to the
  device, the forward pass, the criterion, \<open>zero_grad\<close>, \<open>backward\<close> and \<open>loss.item()\<close>.
  \<open>forward_only\<close> is the same without gradients, lines 281 to 293 of \<open>_valid_one_batch\<close>.
  \<open>optimizer_step clip\<close> clips the gradient norm when \<open>clip\<close> holds, then steps the optimizer.
\<close>

subsection \<open>Sequencing\<close>

type_synonym ('a, 's, 'b) action =
  "('s, 'b) trainer \<Rightarrow> (error + 'a) \<times> ('s, 'b) trainer \<times> obs list"

definition ret :: "'a \<Rightarrow> ('a, 's, 'b) action" where
  "ret x = (\<lambda>t. (Inr x, t, []))"

definition raise :: "error \<Rightarrow> ('a, 's, 'b) action" where
  "raise e = (\<lambda>t. (Inl e, t, []))"

definition assign :: "(('s, 'b) trainer \<Rightarrow> ('s, 'b) trainer) \<Rightarrow> (unit, 's, 'b) action" where
  "assign g = (\<lambda>t. (Inr (), g t, []))"

definition external :: "('s \<Rightarrow> 's) \<Rightarrow> obs \<Rightarrow> (unit, 's, 'b) action" where
  "external g ob = (\<lambda>t. (Inr (), t\<lparr>state := g (state t)\<rparr>, [ob]))"

definition bind :: "('a, 's, 'b) action \<Rightarrow> ('a \<Rightarrow> ('c, 's, 'b) action) \<Rightarrow> ('c, 's, 'b) action" where
  "bind m f = (\<lambda>t. case m t of
       (Inl e, t1, o1) \<Rightarrow> (Inl e, t1, o1)
     | (Inr x, t1, o1) \<Rightarrow> (case f x t1 of (r, t2, o2) \<Rightarrow> (r, t2, o1 @ o2)))"

subsection \<open>The callback registry\<close>

text \<open>
  \<open>self.callbacks\<close> is a \<open>defaultdict(list)\<close>: reading a missing key stores an empty list
  under it and returns that list.
\<close>

definition handlers :: "('s, 'b) trainer \<Rightarrow> string \<Rightarrow> nat list" where
  "handlers t event = (case callbacks t event of None \<Rightarrow> [] | Some hs \<Rightarrow> hs)"

definition callbacks_getitem :: "string \<Rightarrow> ('s, 'b) trainer \<Rightarrow> ('s, 'b) trainer" where
  "callbacks_getitem event t =
     (case callbacks t event of
        None \<Rightarrow> t\<lparr>callbacks := (callbacks t)(event \<mapsto> [])\<rparr>
      | Some hs \<Rightarrow> t)"

definition add_callback :: "string \<Rightarrow> nat \<Rightarrow> ('s, 'b) trainer \<Rightarrow> ('s, 'b) trainer" where
  "add_callback event callback t =
     t\<lparr>callbacks := (callbacks t)(event \<mapsto> handlers t event @ [callback])\<rparr>"

definition set_callback :: "string \<Rightarrow> nat \<Rightarrow> ('s, 'b) trainer \<Rightarrow> ('s, 'b) trainer" where
  "set_callback event callback t = t\<lparr>callbacks := (callbacks t)(event \<mapsto> [callback])\<rparr>"

text \<open>\<open>list.remove\<close>: the first equal element goes; \<open>ValueError\<close> when there is none.\<close>

fun list_remove :: "nat \<Rightarrow> nat list \<Rightarrow> nat list option" where
  "list_remove x [] = None"
| "list_remove x (y # ys) =
     (if y = x then Some ys
      else (case list_remove x ys of None \<Rightarrow> None | Some zs \<Rightarrow> Some (y # zs)))"

definition remove_callback :: "string \<Rightarrow> nat \<Rightarrow> (unit, 's, 'b) action" where
  "remove_callback event callback t =
     (let t1 = callbacks_getitem event t in
      case list_remove callback (handlers t1 event) of
        None \<Rightarrow> (Inl ValueError, t1, [])
      | Some hs \<Rightarrow> (Inr (), t1\<lparr>callbacks := (callbacks t1)(event \<mapsto> hs)\<rparr>, []))"

text \<open>
  The body of the loop of \<open>trigger_callbacks\<close>, for the callbacks still to be called. The
  callback gets the positional and keyword arguments when every keyword is one of its
  parameters, and the trainer alone otherwise.
\<close>

fun run_callbacks ::
  "('s, 'b) collab \<Rightarrow> pyval list \<Rightarrow> (string \<times> pyval) list \<Rightarrow> nat list \<Rightarrow> (unit, 's, 'b) action"
where
  "run_callbacks c args kwargs [] t = (Inr (), t, [])"
| "run_callbacks c args kwargs (callback # rest) t =
     (let params = signature_parameters c callback;
          (a, k) = (if list_all (\<lambda>param. param \<in> set params) (map fst kwargs)
                    then (args, kwargs) else ([], []));
          (r, s) = call c callback a k t;
          t1 = t\<lparr>state := s\<rparr>
      in case r of
           Some e \<Rightarrow> (Inl e, t1, [Invoke callback a k r])
         | None \<Rightarrow> (case run_callbacks c args kwargs rest t1 of
                      (r2, t2, o2) \<Rightarrow> (r2, t2, Invoke callback a k r # o2)))"

definition trigger_callbacks ::
  "('s, 'b) collab \<Rightarrow> string \<Rightarrow> pyval list \<Rightarrow> (string \<times> pyval) list \<Rightarrow> (unit, 's, 'b) action"
where
  "trigger_callbacks c event args kwargs t =
     (let t1 = callbacks_getitem event t in
      case run_callbacks c args kwargs (handlers t1 event) t1 of
        (r, t2, os) \<Rightarrow> (r, t2, Dispatch event (epoch_index t) (batch_index t) # os))"

definition update_metrics :: "string \<Rightarrow> real \<Rightarrow> (unit, 's, 'b) action" where
  "update_metrics metric_name metric_value =
     assign (\<lambda>t. t\<lparr>metrics_dict := (metrics_dict t)(metric_name \<mapsto> metric_value)\<rparr>)"

subsection \<open>One batch\<close>

definition loss_item ::
  "('b \<Rightarrow> 's \<Rightarrow> real \<times> 's) \<Rightarrow> nat \<Rightarrow> 'b \<Rightarrow> (real, 's, 'b) action" where
  "loss_item f batch_size batch t =
     (case f batch (state t) of (l, s) \<Rightarrow> (Inr l, t\<lparr>state := s\<rparr>, [LossItem batch_size l]))"

definition train_one_batch :: "('s, 'b) collab \<Rightarrow> 'b \<Rightarrow> (real \<times> real, 's, 'b) action" where
  "train_one_batch c batch =
     bind (trigger_callbacks c (event_value ON_TRAIN_BATCH_START) [] []) (\<lambda>_.
     let batch_size = size0 c batch in
     bind (loss_item (forward_backward c) batch_size batch) (\<lambda>this_batch_average_loss.
     let this_batch_total_loss = this_batch_average_loss * real batch_size in
     bind (\<lambda>t. external (optimizer_step c (clip_grad_norm t)) OptimizerStep t) (\<lambda>_.
     bind (\<lambda>t. if scheduler t \<and> step_scheduler_on_batch_or_epoch t = ''batch''
                then external (scheduler_step c) SchedulerStep t else ret () t) (\<lambda>_.
     bind (assign (\<lambda>t. t\<lparr>batch_index := batch_index t + 1\<rparr>)) (\<lambda>_.
     bind (trigger_callbacks c (event_value ON_TRAIN_BATCH_END) [] []) (\<lambda>_.
     ret (this_batch_average_loss, this_batch_total_loss)))))))"

definition valid_one_batch :: "('s, 'b) collab \<Rightarrow> 'b \<Rightarrow> (real \<times> real, 's, 'b) action" where
  "valid_one_batch c batch =
     bind (trigger_callbacks c (event_value ON_VALID_BATCH_START) [] []) (\<lambda>_.
     let batch_size = size0 c batch in
     bind (loss_item (forward_only c) batch_size batch) (\<lambda>this_batch_average_loss.
     let this_batch_total_loss = this_batch_average_loss * real batch_size in
     bind (trigger_callbacks c (event_value ON_VALID_BATCH_END) [] []) (\<lambda>_.
     ret (this_batch_average_loss, this_batch_total_loss))))"

subsection \<open>One epoch\<close>

text \<open>
  The loop of \<open>train_one_epoch\<close> over \<open>enumerate(dataloader, start=1)\<close>: \<open>i\<close> is
  \<open>_batch_index\<close>, and the two accumulators are \<open>total_samples\<close> and
  \<open>this_epoch_total_running_loss\<close>. The test of the logging cadence divides by
  \<open>log_every_n_steps\<close>. The scheduler step for the granularity \<open>"epoch"\<close> stands in the
  body of the loop, as it does in the source (line 270 is indented under the \<open>for\<close>).
\<close>

fun train_batches ::
  "('s, 'b) collab \<Rightarrow> nat \<Rightarrow> 'b list \<Rightarrow> nat \<Rightarrow> real \<Rightarrow> (nat \<times> real, 's, 'b) action"
where
  "train_batches c i [] total_samples running = ret (total_samples, running)"
| "train_batches c i (batch # rest) total_samples running =
     (let batch_size = size0 c batch in
      bind (train_one_batch c batch) (\<lambda>(this_batch_average_loss, this_batch_total_loss).
      bind (\<lambda>t. if log_every_n_steps t = 0 then raise ZeroDivisionError t
                 else if int i mod log_every_n_steps t = 0
                 then external (logger_info c (epoch_index t) i this_batch_total_loss
                                  this_batch_average_loss) (LoggerInfo (epoch_index t) i) t
                 else ret () t) (\<lambda>_.
      bind (\<lambda>t. if scheduler t \<and> step_scheduler_on_batch_or_epoch t = ''epoch''
                 then external (scheduler_step c) SchedulerStep t else ret () t) (\<lambda>_.
      train_batches c (Suc i) rest (total_samples + batch_size)
        (running + this_batch_total_loss)))))"

definition average_loss :: "real \<Rightarrow> nat \<Rightarrow> (real, 's, 'b) action" where
  "average_loss running total_samples =
     (if total_samples = 0 then raise ZeroDivisionError
      else ret (running / real total_samples))"

definition train_one_epoch :: "('s, 'b) collab \<Rightarrow> 'b list \<Rightarrow> (real, 's, 'b) action" where
  "train_one_epoch c dataloader =
     bind (trigger_callbacks c (event_value ON_TRAIN_EPOCH_START) []
             [(''phase'', PStr (phase_value TRAIN))]) (\<lambda>_.
     bind (external (model_train c) ModelTrain) (\<lambda>_.
     bind (train_batches c 1 dataloader 0 0) (\<lambda>(total_samples, running).
     bind (average_loss running total_samples) (\<lambda>this_epoch_average_loss.
     bind (update_metrics ''train_this_epoch_average_loss'' this_epoch_average_loss) (\<lambda>_.
     bind (trigger_callbacks c (event_value ON_TRAIN_EPOCH_END) []
             [(''phase'', PStr (phase_value TRAIN))]) (\<lambda>_.
     ret this_epoch_average_loss))))))"

fun valid_batches ::
  "('s, 'b) collab \<Rightarrow> 'b list \<Rightarrow> nat \<Rightarrow> real \<Rightarrow> (nat \<times> real, 's, 'b) action"
where
  "valid_batches c [] total_samples running = ret (total_samples, running)"
| "valid_batches c (batch # rest) total_samples running =
     (let batch_size = size0 c batch in
      bind (valid_one_batch c batch) (\<lambda>(this_batch_loss, this_batch_total_loss).
      valid_batches c rest (total_samples + batch_size) (running + this_batch_total_loss)))"

definition valid_one_epoch :: "('s, 'b) collab \<Rightarrow> 'b list \<Rightarrow> (real, 's, 'b) action" where
  "valid_one_epoch c dataloader =
     bind (trigger_callbacks c (event_value ON_VALID_EPOCH_START) []
             [(''phase'', PStr (phase_value VALID))]) (\<lambda>_.
     bind (external (model_eval c) ModelEval) (\<lambda>_.
     bind (valid_batches c dataloader 0 0) (\<lambda>(total_samples, running).
     bind (average_loss running total_samples) (\<lambda>this_epoch_average_loss.
     bind (update_metrics ''valid_this_epoch_average_loss'' this_epoch_average_loss) (\<lambda>_.
     bind (trigger_callbacks c (event_value ON_VALID_EPOCH_END) []
             [(''phase'', PStr (phase_value VALID))]) (\<lambda>_.
     ret this_epoch_average_loss))))))"

subsection \<open>Fit\<close>

text \<open>\<open>if valid_loader:\<close> asks for the truth value of an optional loader.\<close>

fun loader_bool :: "'b list option \<Rightarrow> bool" where
  "loader_bool None = False"
| "loader_bool (Some batches) = (batches \<noteq> [])"

text \<open>The loop of \<open>fit\<close>, for the iterations of \<open>range(1, max_epochs + 1)\<close> still to run.\<close>

fun fit_epochs ::
  "('s, 'b) collab \<Rightarrow> nat \<Rightarrow> 'b list \<Rightarrow> 'b list option \<Rightarrow> 'b list option \<Rightarrow> (unit, 's, 'b) action"
where
  "fit_epochs c 0 train_loader valid_loader test_loader = ret ()"
| "fit_epochs c (Suc n) train_loader valid_loader test_loader =
     bind (assign (\<lambda>t. t\<lparr>epoch_index := epoch_index t + 1\<rparr>)) (\<lambda>_.
     bind (train_one_epoch c train_loader) (\<lambda>l.
     bind (assign (\<lambda>t. t\<lparr>train_loss := Some l\<rparr>)) (\<lambda>_.
     bind (if loader_bool valid_loader
           then bind (valid_one_epoch c (the valid_loader))
                  (\<lambda>l. assign (\<lambda>t. t\<lparr>valid_loss := Some l\<rparr>))
           else ret ()) (\<lambda>_.
     bind (if loader_bool test_loader
           then bind (valid_one_epoch c (the test_loader))
                  (\<lambda>l. assign (\<lambda>t. t\<lparr>test_loss := Some l\<rparr>))
           else ret ()) (\<lambda>_.
     fit_epochs c n train_loader valid_loader test_loader)))))"

definition fit ::
  "('s, 'b) collab \<Rightarrow> 'b list \<Rightarrow> 'b list option \<Rightarrow> 'b list option \<Rightarrow> ('s, 's, 'b) action"
where
  "fit c train_loader valid_loader test_loader =
     bind (assign (\<lambda>t. t\<lparr>train_dataloader := Some train_loader,
                          valid_dataloader := valid_loader,
                          test_dataloader := test_loader\<rparr>)) (\<lambda>_.
     bind (trigger_callbacks c (event_value ON_FIT_START) [] []) (\<lambda>_.
     bind (\<lambda>t. fit_epochs c (nat (max_epochs t)) train_loader valid_loader test_loader t) (\<lambda>_.
     bind (trigger_callbacks c (event_value ON_FIT_END) [] []) (\<lambda>_.
     (\<lambda>t. ret (state t) t)))))"

subsection \<open>Construction\<close>

text \<open>
  The six callbacks of \<open>omnivault.transformer.core.callbacks\<close> that the constructor
  registers are six distinct function objects.
\<close>

definition save_state :: nat where "save_state = 0"
definition update_state :: nat where "update_state = 1"
definition log_on_fit_start :: nat where "log_on_fit_start = 2"
definition log_on_train_epoch_start :: nat where "log_on_train_epoch_start = 3"
definition log_on_epoch_end :: nat where "log_on_epoch_end = 4"
definition log_on_fit_start_model_summary :: nat where "log_on_fit_start_model_summary = 5"

record composer_trainer =
  cfg_max_epochs :: int
  cfg_log_every_n_steps :: int
  cfg_step_scheduler_on_batch_or_epoch :: string
  cfg_clip_grad_norm :: bool

definition Trainer_init ::
  "('s, 'b) collab \<Rightarrow> 's \<Rightarrow> composer_trainer \<Rightarrow> ('s, 'b) trainer" where
  "Trainer_init c st composer =
     (add_callback (event_value ON_FIT_START) log_on_fit_start_model_summary
     (add_callback (event_value ON_VALID_EPOCH_END) log_on_epoch_end
     (add_callback (event_value ON_TRAIN_EPOCH_END) log_on_epoch_end
     (add_callback (event_value ON_VALID_EPOCH_START) log_on_train_epoch_start
     (add_callback (event_value ON_TRAIN_EPOCH_START) log_on_train_epoch_start
     (add_callback (event_value ON_FIT_START) log_on_fit_start
     (add_callback (event_value ON_TRAIN_EPOCH_END) update_state
     (add_callback (event_value ON_VALID_EPOCH_END) save_state
       \<lparr>state = model_to c st,
        scheduler = state_scheduler c st,
        max_epochs = cfg_max_epochs composer,
        log_every_n_steps = cfg_log_every_n_steps composer,
        step_scheduler_on_batch_or_epoch = cfg_step_scheduler_on_batch_or_epoch composer,
        clip_grad_norm = cfg_clip_grad_norm composer,
        metrics_dict = Map.empty,
        epoch_index = 0,
        batch_index = 0,
        callbacks = Map.empty,
        train_dataloader = None,
        valid_dataloader = None,
        test_dataloader = None,
        train_loss = None,
        valid_loss = None,
        test_loss = None\<rparr>))))))))"

subsection \<open>Reading the observations\<close>

fun event_of :: "obs \<Rightarrow> string list" where
  "event_of (Dispatch ev e b) = [ev]"
| "event_of _ = []"

definition events :: "obs list \<Rightarrow> string list" where
  "events os = concat (map event_of os)"

fun mark_of :: "string \<Rightarrow> obs \<Rightarrow> (int \<times> int) list" where
  "mark_of ev (Dispatch ev' e b) = (if ev' = ev then [(e, b)] else [])"
| "mark_of ev _ = []"

definition marks :: "string \<Rightarrow> obs list \<Rightarrow> (int \<times> int) list" where
  "marks ev os = concat (map (mark_of ev) os)"

fun invocation_of :: "obs \<Rightarrow> (nat \<times> pyval list \<times> (string \<times> pyval) list \<times> error option) list" where
  "invocation_of (Invoke h a k r) = [(h, a, k, r)]"
| "invocation_of _ = []"

definition invocations ::
  "obs list \<Rightarrow> (nat \<times> pyval list \<times> (string \<times> pyval) list \<times> error option) list" where
  "invocations os = concat (map invocation_of os)"

fun loss_of :: "obs \<Rightarrow> (nat \<times> real) list" where
  "loss_of (LossItem n l) = [(n, l)]"
| "loss_of _ = []"

definition loss_items :: "obs list \<Rightarrow> (nat \<times> real) list" where
  "loss_items os = concat (map loss_of os)"

fun is_call :: "obs \<Rightarrow> bool" where
  "is_call (Dispatch ev e b) = False"
| "is_call (Invoke h a k r) = False"
| "is_call (LossItem n l) = False"
| "is_call (LoggerInfo e i) = False"
| "is_call _ = True"

definition calls :: "obs list \<Rightarrow> obs list" where
  "calls os = filter is_call os"

subsection \<open>What an operation leaves alone\<close>

definition settings :: "('s, 'b) trainer \<Rightarrow> bool \<times> int \<times> int \<times> string \<times> bool" where
  "settings t = (scheduler t, max_epochs t, log_every_n_steps t,
     step_scheduler_on_batch_or_epoch t, clip_grad_norm t)"

definition counters :: "('s, 'b) trainer \<Rightarrow> int \<times> int" where
  "counters t = (epoch_index t, batch_index t)"

definition attrs ::
  "('s, 'b) trainer \<Rightarrow> (string \<rightharpoonup> real) \<times> real option \<times> real option \<times> real option
     \<times> 'b list option \<times> 'b list option \<times> 'b list option" where
  "attrs t = (metrics_dict t, train_loss t, valid_loss t, test_loss t,
     train_dataloader t, valid_dataloader t, test_dataloader t)"

subsection \<open>The keyword context as the specification describes it\<close>

text \<open>
  The specification's words for dispatch: a handler receives the part of the keyword
  context whose keys it declares.
\<close>

definition declared_subset :: "string list \<Rightarrow> (string \<times> pyval) list \<Rightarrow> (string \<times> pyval) list" where
  "declared_subset params kwargs = filter (\<lambda>(key, v). key \<in> set params) kwargs"

subsection \<open>A small run\<close>

text \<open>
  Collaborators for concrete runs. A batch is its size and the loss the model has on it;
  the external value counts the optimizer and scheduler steps taken. Callback 7 declares
  \<open>trainer\<close> and \<open>phase\<close>, callback 9 raises, every other callback declares \<open>trainer\<close>
  only and returns.
\<close>

definition example_collab :: "(nat, nat \<times> real) collab" where
  "example_collab =
     \<lparr>signature_parameters = (\<lambda>h. if h = 7 then [''trainer'', ''phase''] else [''trainer'']),
      call = (\<lambda>h a k t. (if h = 9 then Some (Raised ''boom'') else None, state t)),
      size0 = fst,
      forward_backward = (\<lambda>batch s. (snd batch, s)),
      forward_only = (\<lambda>batch s. (snd batch, s)),
      optimizer_step = (\<lambda>clip s. Suc s),
      scheduler_step = (\<lambda>s. Suc s),
      model_train = (\<lambda>s. s),
      model_eval = (\<lambda>s. s),
      logger_info = (\<lambda>e i total avg s. s),
      model_to = (\<lambda>s. s),
      state_scheduler = (\<lambda>s. True)\<rparr>"

definition example_trainer :: "string \<Rightarrow> int \<Rightarrow> (nat, nat \<times> real) trainer" where
  "example_trainer granularity epochs =
     \<lparr>state = 0,
      scheduler = True,
      max_epochs = epochs,
      log_every_n_steps = 1,
      step_scheduler_on_batch_or_epoch = granularity,
      clip_grad_norm = False,
      metrics_dict = Map.empty,
      epoch_index = 0,
      batch_index = 0,
      callbacks = Map.empty,
      train_dataloader = None,
      valid_dataloader = None,
      test_dataloader = None,
      train_loss = None,
      valid_loss = None,
      test_loss = None\<rparr>"

definition example_registry :: "(nat, nat \<times> real) trainer" where
  "example_registry =
     add_callback ''on_fit_start'' 4 (add_callback ''on_fit_start'' 9
       (add_callback ''on_fit_start'' 7 (example_trainer ''batch'' 1)))"

section \<open>Properties\<close>

lemmas action_defs = ret_def raise_def assign_def external_def update_metrics_def loss_item_def average_loss_def

lemma bind_Inr:
  "bind m f t = (Inr r, t', os) \<longleftrightarrow>
     (\<exists>x t1 o1 o2. m t = (Inr x, t1, o1) \<and> f x t1 = (Inr r, t', o2) \<and> os = o1 @ o2)"
  by (auto simp: bind_def split: prod.splits sum.splits)

lemma events_simps [simp]:
  "events [] = []" "events (os @ os') = events os @ events os'"
  "events (ob # os) = event_of ob @ events os"
  by (simp_all add: events_def)

lemma marks_simps [simp]:
  "marks ev [] = []" "marks ev (os @ os') = marks ev os @ marks ev os'"
  "marks ev (ob # os) = mark_of ev ob @ marks ev os"
  by (simp_all add: marks_def)

lemma invocations_simps [simp]:
  "invocations [] = []" "invocations (os @ os') = invocations os @ invocations os'"
  "invocations (ob # os) = invocation_of ob @ invocations os"
  by (simp_all add: invocations_def)

lemma loss_items_simps [simp]:
  "loss_items [] = []" "loss_items (os @ os') = loss_items os @ loss_items os'"
  "loss_items (ob # os) = loss_of ob @ loss_items os"
  by (simp_all add: loss_items_def)

lemma calls_simps [simp]:
  "calls [] = []" "calls (os @ os') = calls os @ calls os'"
  "calls (ob # os) = (if is_call ob then ob # calls os else calls os)"
  by (simp_all add: calls_def)

lemma handlers_getitem [simp]: "handlers (callbacks_getitem ev t) ev' = handlers t ev'"
  by (simp add: handlers_def callbacks_getitem_def split: option.splits)

lemma list_remove_None: "list_remove x ys = None \<longleftrightarrow> x \<notin> set ys"
  by (induction ys) (auto split: option.splits)

lemma run_callbacks_nil_obs:
  "run_callbacks c args kwargs hs t = (r, t', os) \<Longrightarrow>
     events os = [] \<and> marks ev os = [] \<and> loss_items os = [] \<and> calls os = []"
proof (induction hs arbitrary: t r t' os)
  case Nil then show ?case by simp
next
  case (Cons h hs)
  then show ?case
    by (auto simp: Let_def split: prod.splits option.splits if_splits)
qed

lemma run_callbacks_frame:
  "run_callbacks c args kwargs hs t = (r, t', os) \<Longrightarrow>
     settings t' = settings t \<and> counters t' = counters t \<and> attrs t' = attrs t \<and> callbacks t' = callbacks t"
proof (induction hs arbitrary: t r t' os)
  case Nil then show ?case by simp
next
  case (Cons h hs)
  then show ?case
    by (fastforce simp: Let_def settings_def counters_def attrs_def split: prod.splits option.splits if_splits)
qed

lemma trigger_callbacks_frame:
  assumes "trigger_callbacks c ev args kwargs t = (r, t', os)"
  shows "settings t' = settings t" "counters t' = counters t" "attrs t' = attrs t" "handlers t' = handlers t"
  using assms run_callbacks_frame[of c args kwargs "handlers (callbacks_getitem ev t) ev" "callbacks_getitem ev t"]
  apply (auto simp: trigger_callbacks_def Let_def split: prod.splits)
  apply (auto simp: settings_def counters_def attrs_def callbacks_getitem_def handlers_def fun_eq_iff split: option.splits)
  done

lemma trigger_callbacks_obs:
  assumes "trigger_callbacks c ev args kwargs t = (r, t', os)"
  shows "events os = [ev]" "marks ev' os = (if ev = ev' then [(epoch_index t, batch_index t)] else [])"
    "loss_items os = []" "calls os = []"
  using assms run_callbacks_nil_obs[of c args kwargs "handlers (callbacks_getitem ev t) ev" "callbacks_getitem ev t"]
  by (auto simp: trigger_callbacks_def Let_def split: prod.splits)

subsection \<open>The registry and dispatch\<close>


lemma run_callbacks_arguments:
  "run_callbacks c args kwargs hs t = (r, t', os) \<Longrightarrow>
     \<exists>n \<le> length hs. (r = Inr () \<longrightarrow> n = length hs) \<and>
       map (\<lambda>(h, a, k, x). (h, a, k)) (invocations os) =
       map (\<lambda>h. if set (map fst kwargs) \<subseteq> set (signature_parameters c h)
                 then (h, args, kwargs) else (h, [], [])) (take n hs)"
proof (induction hs arbitrary: t r t' os)
  case Nil
  then show ?case by auto
next
  case (Cons h hs)
  obtain a k where ak: "(if list_all (\<lambda>param. param \<in> set (signature_parameters c h)) (map fst kwargs)
                    then (args, kwargs) else ([], [])) = (a, k)" by fastforce
  then have ak': "(if set (map fst kwargs) \<subseteq> set (signature_parameters c h)
                 then (h, args, kwargs) else (h, [], [])) = (h, a, k)"
    by (auto simp: list_all_iff split: if_splits)
  obtain x s where xs: "call c h a k t = (x, s)" by fastforce
  show ?case
  proof (cases x)
    case (Some e)
    with Cons.prems ak xs have "r = Inl e" "os = [Invoke h a k (Some e)]"
      by (auto simp: Let_def)
    then show ?thesis using ak' by (intro exI[of _ 1]) simp
  next
    case None
    obtain r2 t2 o2 where rec: "run_callbacks c args kwargs hs (t\<lparr>state := s\<rparr>) = (r2, t2, o2)"
      by (metis prod_cases3)
    with Cons.prems ak xs None have eq: "r = r2" "os = Invoke h a k None # o2"
      by (auto simp: Let_def)
    from Cons.IH[OF rec] obtain n where n: "n \<le> length hs" "r2 = Inr () \<longrightarrow> n = length hs"
      "map (\<lambda>(h, a, k, x). (h, a, k)) (invocations o2) =
       map (\<lambda>h. if set (map fst kwargs) \<subseteq> set (signature_parameters c h)
                 then (h, args, kwargs) else (h, [], [])) (take n hs)" by auto
    then show ?thesis using eq ak' by (intro exI[of _ "Suc n"]) simp
  qed
qed

lemma trigger_callbacks_invocations:
  "trigger_callbacks c ev args kwargs t = (r, t', os) \<Longrightarrow>
     \<exists>o2. run_callbacks c args kwargs (handlers t ev) (callbacks_getitem ev t) = (r, t', o2)
        \<and> invocations os = invocations o2"
  by (auto simp: trigger_callbacks_def Let_def split: prod.splits)

lemma getitem_idem [simp]: "callbacks_getitem ev (callbacks_getitem ev t) = callbacks_getitem ev t"
  by (simp add: callbacks_getitem_def split: option.splits)

lemma getitem_counters [simp]:
  "epoch_index (callbacks_getitem ev t) = epoch_index t"
  "batch_index (callbacks_getitem ev t) = batch_index t"
  by (simp_all add: callbacks_getitem_def split: option.splits)

lemma trigger_callbacks_getitem:
  "trigger_callbacks c ev args kwargs (callbacks_getitem ev t) = trigger_callbacks c ev args kwargs t"
  by (simp add: trigger_callbacks_def)

lemma handlers_add_callback:
  "handlers (add_callback ev h t) ev' = (if ev' = ev then handlers t ev @ [h] else handlers t ev')"
  by (simp add: handlers_def add_callback_def)

lemma handlers_set_callback:
  "handlers (set_callback ev h t) ev' = (if ev' = ev then [h] else handlers t ev')"
  by (simp add: handlers_def set_callback_def)

lemma handlers_example_trainer [simp]: "handlers (example_trainer g n) ev = []"
  by (simp add: handlers_def example_trainer_def)

lemma handlers_example_registry:
  "handlers example_registry ev = (if ev = ''on_fit_start'' then [7, 9, 4] else [])"
  by (simp add: example_registry_def handlers_add_callback)

lemma getitem_example_registry:
  "callbacks_getitem ''on_fit_start'' example_registry = example_registry"
  by (simp add: callbacks_getitem_def example_registry_def add_callback_def split: option.splits)

lemma example_registry_dispatch:
  "trigger_callbacks example_collab ''on_fit_start'' [PInt 5]
     [(''phase'', PStr ''train''), (''epoch'', PInt 1)] example_registry
   = (Inl (Raised ''boom''), example_registry,
      [Dispatch ''on_fit_start'' 0 0, Invoke 7 [] [] None, Invoke 9 [] [] (Some (Raised ''boom''))])"
  by (simp add: trigger_callbacks_def getitem_example_registry handlers_example_registry
      example_collab_def)
     (simp add: example_registry_def add_callback_def example_trainer_def)

text \<open>
  C3. Unregistering a handler that is not registered for the event fails (\<open>list.remove\<close>
  raises \<open>ValueError\<close>, the failure the specification calls \<open>NotFoundError\<close>), the handlers
  of every event are what they were, and a later dispatch of the event does exactly what it
  would have done without the failed removal.
\<close>

theorem remove_callback_absent:
  assumes "callback \<notin> set (handlers t event)"
  shows "fst (remove_callback event callback t) = Inl ValueError
     \<and> handlers (fst (snd (remove_callback event callback t))) = handlers t
     \<and> trigger_callbacks c event args kwargs (fst (snd (remove_callback event callback t)))
         = trigger_callbacks c event args kwargs t"
proof -
  from assms have "list_remove callback (handlers (callbacks_getitem event t) event) = None"
    by (simp add: list_remove_None)
  then have "remove_callback event callback t = (Inl ValueError, callbacks_getitem event t, [])"
    by (simp add: remove_callback_def)
  then show ?thesis by (simp add: trigger_callbacks_getitem fun_eq_iff)
qed

theorem remove_callback_absent_witness:
  "3 \<notin> set (handlers example_registry ''on_fit_start'')
   \<and> fst (remove_callback ''on_fit_start'' 3 example_registry) = Inl ValueError
   \<and> handlers (fst (snd (remove_callback ''on_fit_start'' 3 example_registry)))
       = handlers example_registry
   \<and> trigger_callbacks example_collab ''on_fit_start'' [] []
         (fst (snd (remove_callback ''on_fit_start'' 3 example_registry)))
       = trigger_callbacks example_collab ''on_fit_start'' [] [] example_registry"
proof -
  have h: "3 \<notin> set (handlers example_registry ''on_fit_start'')"
    by (simp add: handlers_example_registry)
  from remove_callback_absent [OF h, of example_collab "[]" "[]"] h show ?thesis by blast
qed



text \<open>
  C2, as the code has it. A handler that declares every key of the keyword context is
  called with the trainer, the positional arguments and the whole context; a handler that
  lacks one of the keys is called with the trainer alone. The handlers called are the
  first \<open>n\<close> registered ones, all of them when the dispatch returns.
\<close>

theorem trigger_callbacks_arguments:
  assumes "trigger_callbacks c event args kwargs t = (r, t', os)"
  shows "\<exists>n \<le> length (handlers t event). (r = Inr () \<longrightarrow> n = length (handlers t event)) \<and>
       map (\<lambda>(h, a, k, x). (h, a, k)) (invocations os) =
       map (\<lambda>h. if set (map fst kwargs) \<subseteq> set (signature_parameters c h)
                 then (h, args, kwargs) else (h, [], [])) (take n (handlers t event))"
proof -
  from trigger_callbacks_invocations [OF assms] obtain o2 where
    "run_callbacks c args kwargs (handlers t event) (callbacks_getitem event t) = (r, t', o2)"
    "invocations os = invocations o2" by blast
  with run_callbacks_arguments [of c args kwargs "handlers t event" "callbacks_getitem event t" r t' o2]
  show ?thesis by simp
qed

theorem trigger_callbacks_arguments_witness:
  "trigger_callbacks example_collab ''on_fit_start'' [PInt 5] [(''phase'', PStr ''train'')]
     (add_callback ''on_fit_start'' 3 (add_callback ''on_fit_start'' 7 (example_trainer ''batch'' 1)))
   = (Inr (),
      add_callback ''on_fit_start'' 3 (add_callback ''on_fit_start'' 7 (example_trainer ''batch'' 1)),
      [Dispatch ''on_fit_start'' 0 0, Invoke 7 [PInt 5] [(''phase'', PStr ''train'')] None,
       Invoke 3 [] [] None])
   \<and> (\<exists>n \<le> 2. (n = 2) \<and>
        [(7, [PInt 5], [(''phase'', PStr ''train'')]), (3, [], [])] =
        map (\<lambda>h. if set (map fst [(''phase'', PStr ''train'')])
                      \<subseteq> set (signature_parameters example_collab h)
                  then (h, [PInt 5], [(''phase'', PStr ''train'')]) else (h, [], []))
          (take n [7, 3]))"
proof -
  have run: "trigger_callbacks example_collab ''on_fit_start'' [PInt 5] [(''phase'', PStr ''train'')]
     (add_callback ''on_fit_start'' 3 (add_callback ''on_fit_start'' 7 (example_trainer ''batch'' 1)))
   = (Inr (),
      add_callback ''on_fit_start'' 3 (add_callback ''on_fit_start'' 7 (example_trainer ''batch'' 1)),
      [Dispatch ''on_fit_start'' 0 0, Invoke 7 [PInt 5] [(''phase'', PStr ''train'')] None,
       Invoke 3 [] [] None])"
    by (simp add: trigger_callbacks_def callbacks_getitem_def handlers_def add_callback_def
        example_trainer_def example_collab_def)
  from trigger_callbacks_arguments [OF run] run show ?thesis
    by (simp add: handlers_add_callback)
qed

text \<open>
  C2, as the claim states it, fails: callback 7 declares \<open>phase\<close> and is dispatched with
  the positional argument 5 and the context \<open>phase\<close>, \<open>epoch\<close>. The declared part of the
  context is \<open>phase\<close>; the callback is called with the trainer alone.
\<close>

theorem trigger_callbacks_partial_context_counterexample:
  "invocations (snd (snd (trigger_callbacks example_collab ''on_fit_start'' [PInt 5]
       [(''phase'', PStr ''train''), (''epoch'', PInt 1)] example_registry)))
     = [(7, [], [], None), (9, [], [], Some (Raised ''boom''))]
   \<and> declared_subset (signature_parameters example_collab 7)
       [(''phase'', PStr ''train''), (''epoch'', PInt 1)] = [(''phase'', PStr ''train'')]"
  by (simp add: example_registry_dispatch) (simp add: declared_subset_def example_collab_def)

text \<open>
  C10. An event without handlers, whatever its name, dispatches to nothing and returns;
  the trainer as constructed has no handler for a name outside the ten events; and
  \<open>add_callback\<close> and \<open>set_callback\<close> register under any name.
\<close>

theorem trigger_callbacks_unregistered:
  assumes "handlers t event = []"
  shows "trigger_callbacks c event args kwargs t
           = (Inr (), callbacks_getitem event t,
              [Dispatch event (epoch_index t) (batch_index t)])
     \<and> invocations (snd (snd (trigger_callbacks c event args kwargs t))) = []
     \<and> handlers (add_callback event h t) event = [h]
     \<and> handlers (set_callback event h t) event = [h]
     \<and> (event \<notin> range event_value \<longrightarrow> handlers (Trainer_init c st composer) event = [])"
proof -
  have "event \<notin> range event_value \<Longrightarrow> handlers (Trainer_init c st composer) event = []"
  proof -
    assume a: "event \<notin> range event_value"
    have b: "event \<noteq> event_value ev" for ev using a by blast
    show ?thesis
      using b [of ON_TRAIN_EPOCH_START] b [of ON_TRAIN_EPOCH_END] b [of ON_VALID_EPOCH_START]
        b [of ON_VALID_EPOCH_END] b [of ON_FIT_START]
      by (simp add: Trainer_init_def handlers_add_callback) (simp add: handlers_def)
  qed
  with assms show ?thesis
    by (simp add: trigger_callbacks_def handlers_add_callback handlers_set_callback)
qed

theorem trigger_callbacks_unregistered_witness:
  "handlers (Trainer_init example_collab 0 \<lparr>cfg_max_epochs = 1, cfg_log_every_n_steps = 1,
       cfg_step_scheduler_on_batch_or_epoch = ''epoch'', cfg_clip_grad_norm = False\<rparr>
       :: (nat, nat \<times> real) trainer) ''no_such_event'' = []
   \<and> fst (trigger_callbacks example_collab ''no_such_event'' [PInt 5] [(''phase'', PNone)]
       (Trainer_init example_collab 0 \<lparr>cfg_max_epochs = 1, cfg_log_every_n_steps = 1,
       cfg_step_scheduler_on_batch_or_epoch = ''epoch'', cfg_clip_grad_norm = False\<rparr>)) = Inr ()
   \<and> invocations (snd (snd (trigger_callbacks example_collab ''no_such_event'' [PInt 5]
       [(''phase'', PNone)]
       (Trainer_init example_collab 0 \<lparr>cfg_max_epochs = 1, cfg_log_every_n_steps = 1,
       cfg_step_scheduler_on_batch_or_epoch = ''epoch'', cfg_clip_grad_norm = False\<rparr>)))) = []"
proof -
  have h: "handlers (Trainer_init example_collab 0 \<lparr>cfg_max_epochs = 1, cfg_log_every_n_steps = 1,
       cfg_step_scheduler_on_batch_or_epoch = ''epoch'', cfg_clip_grad_norm = False\<rparr>
       :: (nat, nat \<times> real) trainer) ''no_such_event'' = []"
    by (simp add: Trainer_init_def handlers_add_callback) (simp add: handlers_def)
  from trigger_callbacks_unregistered [OF h, of example_collab "[PInt 5]" "[(''phase'', PNone)]"] h
  show ?thesis by simp
qed

end
